theory Spec2Isabelle
  imports Complex_Main
begin

section \<open>Company vector search: the embedding of companyDescriptionEmbeddingsSearch.py\<close>

text \<open>
  The program is one Streamlit script.  Each user interaction runs the script from top
  to bottom; what survives between runs is the session entry \<open>search_results_df\<close> and the
  store behind the \<open>st.cache_data\<close> decorator of \<open>get_embedding\<close>.  The embedding provider
  and the database are outside the program: they are parameters of the model (an
  \<open>env\<close>), and every call to them is an event of the run.

  Python \<open>str\<close> is modelled by \<open>string\<close>, a character being a code point below 256.
  Python \<open>int\<close> is \<open>int\<close>.  The elements of an embedding are passed through and never
  inspected, so they are \<open>real\<close> numbers here.
\<close>

subsection \<open>Python strings: \<open>str.split\<close>, \<open>str.strip\<close>, \<open>str.replace\<close>\<close>

text \<open>The characters \<open>str.strip()\<close> removes: those with \<open>str.isspace\<close>, below code point 256.\<close>

definition whitespace_chars :: "char list" where
  "whitespace_chars =
     [CHR 0x09, CHR 0x0A, CHR 0x0B, CHR 0x0C, CHR 0x0D,
      CHR 0x1C, CHR 0x1D, CHR 0x1E, CHR 0x1F, CHR 0x20, CHR 0x85, CHR 0xA0]"

definition isspace :: "char \<Rightarrow> bool" where
  "isspace c = (c \<in> set whitespace_chars)"

text \<open>\<open>s.strip()\<close>: leading and trailing whitespace removed.\<close>

definition lstrip :: "string \<Rightarrow> string" where
  "lstrip s = dropWhile isspace s"

definition rstrip :: "string \<Rightarrow> string" where
  "rstrip s = rev (dropWhile isspace (rev s))"

definition strip :: "string \<Rightarrow> string" where
  "strip s = rstrip (lstrip s)"

text \<open>
  \<open>s.split(sep)\<close> for a one-character separator: the pieces between the separators,
  empty pieces kept; the empty string gives one empty piece.
\<close>

fun split :: "char \<Rightarrow> string \<Rightarrow> string list" where
  "split sep [] = [[]]"
| "split sep (c # cs) =
     (if c = sep then [] # split sep cs
      else (c # hd (split sep cs)) # tl (split sep cs))"

text \<open>\<open>sep.join(pieces)\<close>, used to state what \<open>split\<close> computes.\<close>

fun join :: "string \<Rightarrow> string list \<Rightarrow> string" where
  "join sep [] = []"
| "join sep [p] = p"
| "join sep (p # q # ps) = p @ sep @ join sep (q # ps)"

text \<open>\<open>text.replace("\n", " ")\<close>.\<close>

definition replace_newlines :: "string \<Rightarrow> string" where
  "replace_newlines text = map (\<lambda>c. if c = CHR 0x0A then CHR '' '' else c) text"

subsection \<open>Values sent to and received from the database\<close>

text \<open>
  The aggregation pipeline is a Python list of dicts.  A dict is an association list in
  insertion order; \<open>dict_set\<close> is \<open>d[k] = v\<close> and \<open>dict_of\<close> builds a dict display
  \<open>{k1: v1, ..., **d}\<close> from its items, left to right, a later key replacing the value of
  an equal earlier one.
\<close>

datatype json =
    JStr string
  | JInt int
  | JNum real
  | JList "json list"
  | JDict "(string \<times> json) list"

fun dict_set :: "string \<Rightarrow> json \<Rightarrow> (string \<times> json) list \<Rightarrow> (string \<times> json) list" where
  "dict_set k v [] = [(k, v)]"
| "dict_set k v ((k', v') # d) = (if k' = k then (k, v) # d else (k', v') # dict_set k v d)"

definition dict_of :: "(string \<times> json) list \<Rightarrow> (string \<times> json) list" where
  "dict_of items = foldl (\<lambda>d (k, v). dict_set k v d) [] items"

text \<open>\<open>d.get(k)\<close> on a value that may or may not be a dict.\<close>

fun dict_get :: "string \<Rightarrow> json \<Rightarrow> json option" where
  "dict_get k (JDict d) = map_of d k"
| "dict_get k _ = None"

type_synonym embedding = "real list"
type_synonym document = "(string \<times> json) list"
type_synonym dataframe = "document list"

subsection \<open>The query built by \<open>vector_search\<close> (lines 82 to 106)\<close>

definition search_filter :: "string list \<Rightarrow> json" where
  "search_filter industries_list =
     JDict (dict_of
       ([(''company_headquarters_country'', JStr ''USA'')] @
        (if industries_list \<noteq> []
         then [(''industry'', JDict (dict_of [(''$in'', JList (map JStr industries_list))]))]
         else [])))"

definition search_stage :: "embedding \<Rightarrow> int \<Rightarrow> int \<Rightarrow> string list \<Rightarrow> json" where
  "search_stage query_vector num_candidates limit industries_list =
     JDict (dict_of
       [(''index'', JStr ''vector_index_for_company_search''),
        (''path'', JStr ''company_description_embedding''),
        (''queryVector'', JList (map JNum query_vector)),
        (''numCandidates'', JInt num_candidates),
        (''limit'', JInt limit),
        (''filter'', search_filter industries_list)])"

definition project_stage :: json where
  "project_stage =
     JDict (dict_of
       [(''score'', JDict (dict_of [(''$meta'', JStr ''vectorSearchScore'')])),
        (''company_name'', JInt 1),
        (''company_description'', JInt 1),
        (''company_headquarters_country'', JInt 1),
        (''industry'', JInt 1),
        (''_id'', JInt 0)])"

definition pipeline :: "embedding \<Rightarrow> int \<Rightarrow> int \<Rightarrow> string list \<Rightarrow> json list" where
  "pipeline query_vector num_candidates limit industries_list =
     [JDict (dict_of [(''$vectorSearch'',
                       search_stage query_vector num_candidates limit industries_list)]),
      JDict (dict_of [(''$project'', project_stage)])]"

text \<open>Reading a pipeline back: the \<open>$vectorSearch\<close> stage of its first element and a field of it.\<close>

fun vector_search_stage :: "json list \<Rightarrow> json option" where
  "vector_search_stage [] = None"
| "vector_search_stage (stage # _) = dict_get ''$vectorSearch'' stage"

definition stage_field :: "string \<Rightarrow> json list \<Rightarrow> json option" where
  "stage_field k p = (case vector_search_stage p of None \<Rightarrow> None | Some st \<Rightarrow> dict_get k st)"

definition filter_field :: "string \<Rightarrow> json list \<Rightarrow> json option" where
  "filter_field k p = (case stage_field ''filter'' p of None \<Rightarrow> None | Some f \<Rightarrow> dict_get k f)"

subsection \<open>Industry-filter parsing (line 152)\<close>

text \<open>
  \<^verbatim>\<open>[ind.strip() for ind in industry_input.split(',') if ind.strip()] if industry_input else []\<close>
\<close>

definition parse_industries :: "string \<Rightarrow> string list" where
  "parse_industries industry_input =
     (if industry_input \<noteq> []
      then map strip (filter (\<lambda>ind. strip ind \<noteq> []) (split CHR '','' industry_input))
      else [])"

text \<open>
  The parsing as the specification words it: the input split on commas, each entry
  trimmed of surrounding whitespace, the entries empty after trimming dropped.
\<close>

definition spec_parse_industries :: "string \<Rightarrow> string list" where
  "spec_parse_industries s = filter (\<lambda>entry. entry \<noteq> []) (map strip (split CHR '','' s))"

subsection \<open>The outside world and the events of a run\<close>

text \<open>
  \<open>embeddings_create env text model\<close> is what \<open>openai_client.embeddings.create\<close> followed by
  \<open>response.data[0].embedding\<close> gives: the embedding, or the text of the exception raised.
  \<open>aggregate env p\<close> is what \<open>list(collection.aggregate(p))\<close> gives: the documents, or the
  exception, an \<open>OperationFailure\<close> being caught apart from the others.
\<close>

datatype db_exception = OperationFailure string | OtherException string

record env =
  embeddings_create :: "string \<Rightarrow> string \<Rightarrow> string + embedding"
  aggregate :: "json list \<Rightarrow> db_exception + document list"

text \<open>
  What a run does, in the order it does it: the two outbound calls, the assignments to
  \<open>st.session_state.search_results_df\<close>, and the elements it puts on the page.  The title,
  the form, the spinners and the icons of the messages are left out.
\<close>

datatype event =
    EmbeddingRequest string string
  | AggregateRequest "json list"
  | SessionWrite "dataframe option"
  | StWarning string
  | StError string
  | StInfo string
  | StMarkdown string
  | StSubheader string
  | StWrite string
  | StDataframe dataframe

fun embedding_requests :: "event list \<Rightarrow> (string \<times> string) list" where
  "embedding_requests [] = []"
| "embedding_requests (EmbeddingRequest text model # evs) = (text, model) # embedding_requests evs"
| "embedding_requests (_ # evs) = embedding_requests evs"

fun aggregate_requests :: "event list \<Rightarrow> json list list" where
  "aggregate_requests [] = []"
| "aggregate_requests (AggregateRequest p # evs) = p # aggregate_requests evs"
| "aggregate_requests (_ # evs) = aggregate_requests evs"

fun is_session_write :: "event \<Rightarrow> bool" where
  "is_session_write (SessionWrite _) = True"
| "is_session_write _ = False"

fun is_warning :: "event \<Rightarrow> bool" where
  "is_warning (StWarning _) = True"
| "is_warning _ = False"

text \<open>The elements of the results display (lines 164 to 178).\<close>

fun is_results_element :: "event \<Rightarrow> bool" where
  "is_results_element (StInfo _) = True"
| "is_results_element (StMarkdown _) = True"
| "is_results_element (StSubheader _) = True"
| "is_results_element (StWrite _) = True"
| "is_results_element (StDataframe _) = True"
| "is_results_element _ = False"

text \<open>The texts of the \<open>st.error\<close> elements among the events.\<close>

fun error_messages :: "event list \<Rightarrow> string list" where
  "error_messages [] = []"
| "error_messages (StError msg # evs) = msg # error_messages evs"
| "error_messages (_ # evs) = error_messages evs"

subsection \<open>\<open>get_embedding\<close> (lines 65 to 74)\<close>

definition default_model :: string where
  "default_model = ''text-embedding-ada-002''"

text \<open>The body of the function: one call to the provider, any exception turned into \<open>None\<close>.\<close>

definition get_embedding_body :: "env \<Rightarrow> string \<Rightarrow> embedding option \<times> event list" where
  "get_embedding_body env text =
     (let text' = replace_newlines text in
      case embeddings_create env text' default_model of
        Inr v \<Rightarrow> (Some v, [EmbeddingRequest text' default_model])
      | Inl e \<Rightarrow> (None, [EmbeddingRequest text' default_model,
                         StError (''OpenAI Error: Failed to generate embedding. '' @ e)]))"

text \<open>
  The decorator \<open>st.cache_data\<close>: the store is keyed by the arguments of the call (the
  script always leaves \<open>model\<close> at its default, so by \<open>text\<close> as passed, before the body
  replaces the newlines).  A hit returns the stored value without running the body and
  shows again the \<open>st.error\<close> elements the body showed; a miss runs the body and stores
  what it returned, \<open>None\<close> included.
\<close>

type_synonym cache = "string \<rightharpoonup> (embedding option \<times> string list)"

definition get_embedding :: "env \<Rightarrow> string \<Rightarrow> cache \<Rightarrow> embedding option \<times> cache \<times> event list" where
  "get_embedding env text c =
     (case c text of
        Some (v, shown) \<Rightarrow> (v, c, map StError shown)
      | None \<Rightarrow>
          (case get_embedding_body env text of
             (v, evs) \<Rightarrow> (v, c(text \<mapsto> (v, error_messages evs)), evs)))"

subsection \<open>\<open>vector_search\<close> (lines 76 to 115)\<close>

definition vector_search ::
  "env \<Rightarrow> embedding option \<Rightarrow> int \<Rightarrow> int \<Rightarrow> string list \<Rightarrow> document list option \<times> event list" where
  "vector_search env query_vector num_candidates limit industries_list =
     (case query_vector of
        None \<Rightarrow> (None, [])
      | Some qv \<Rightarrow>
          (let p = pipeline qv num_candidates limit industries_list in
           case aggregate env p of
             Inr results \<Rightarrow> (Some results, [AggregateRequest p])
           | Inl (OperationFailure e) \<Rightarrow>
               (None, [AggregateRequest p,
                       StError (''MongoDB Operation Error: The search failed. Check index and filters. Details: '' @ e)])
           | Inl (OtherException e) \<Rightarrow>
               (None, [AggregateRequest p,
                       StError (''An unexpected error occurred during the search: '' @ e)])))"

subsection \<open>The session, the form and the script (lines 18 to 21 and 123 to 178)\<close>

record session =
  search_results_df :: "dataframe option"
  embedding_cache :: cache

definition initial_session :: session where
  "initial_session = \<lparr>search_results_df = None, embedding_cache = Map.empty\<rparr>"

record form =
  description_input :: string
  industry_input :: string
  limit_input :: int
  candidates_input :: int





text \<open>A run in progress: the session and the events so far.\<close>

type_synonym run = "session \<times> event list"

definition emit :: "event list \<Rightarrow> run \<Rightarrow> run" where
  "emit new r = (fst r, snd r @ new)"

definition set_search_results_df :: "dataframe option \<Rightarrow> run \<Rightarrow> run" where
  "set_search_results_df v r = (fst r\<lparr>search_results_df := v\<rparr>, snd r @ [SessionWrite v])"

definition set_embedding_cache :: "cache \<Rightarrow> run \<Rightarrow> run" where
  "set_embedding_cache c r = (fst r\<lparr>embedding_cache := c\<rparr>, snd r)"

text \<open>Python truthiness of a value that is \<open>None\<close> or a list.\<close>

fun truthy :: "'a list option \<Rightarrow> bool" where
  "truthy None = False"
| "truthy (Some xs) = (xs \<noteq> [])"

text \<open>\<open>str(n)\<close> for the count in the f-strings of the results display.\<close>

fun str_nat :: "nat \<Rightarrow> string" where
  "str_nat n =
     (if n < 10 then [char_of (48 + n)]
      else str_nat (n div 10) @ [char_of (48 + n mod 10)])"

text \<open>The search logic (lines 143 to 162), run when the form was submitted.\<close>

definition search_logic :: "env \<Rightarrow> form \<Rightarrow> run \<Rightarrow> run" where
  "search_logic env f r0 =
     (let r1 = set_search_results_df None r0 in
      if description_input f = [] then
        emit [StWarning ''Please enter a description to search for.''] r1
      else
        (case get_embedding env (description_input f) (embedding_cache (fst r1)) of
           (query_vector, c, evs) \<Rightarrow>
             (let r2 = emit evs (set_embedding_cache c r1) in
              if truthy query_vector then
                (let industries_list = parse_industries (industry_input f) in
                 case vector_search env query_vector (candidates_input f) (limit_input f)
                        industries_list of
                   (search_results, evs') \<Rightarrow>
                     (let r3 = emit evs' r2 in
                      if truthy search_results then set_search_results_df search_results r3
                      else set_search_results_df (Some []) r3))
              else r2)))"

text \<open>The results display (lines 164 to 178).\<close>

definition results_display :: "session \<Rightarrow> event list" where
  "results_display s =
     (case search_results_df s of
        None \<Rightarrow> []
      | Some df \<Rightarrow>
          (let total_results = length df in
           if total_results = 0 then
             [StInfo ''The search did not return any results from the database. Try broadening your criteria.'']
           else
             [StMarkdown ''---'',
              StSubheader (''Search Results: '' @ str_nat total_results @ '' Companies Found''),
              StWrite (''Displaying all **'' @ str_nat total_results @ ''** fetched companies.''),
              StDataframe df]))"

text \<open>One run of the script on a session: the session after it and the events of the run.\<close>

definition run_script :: "env \<Rightarrow> bool \<Rightarrow> form \<Rightarrow> session \<Rightarrow> run" where
  "run_script env submit_button f s =
     (let r = (if submit_button then search_logic env f (s, []) else (s, [])) in
      emit (results_display (fst r)) r)"


text \<open>Any number of further runs, each with its own state of the outside world.\<close>

fun run_many :: "(env \<times> bool \<times> form) list \<Rightarrow> session \<Rightarrow> session" where
  "run_many [] s = s"
| "run_many ((env, submit_button, f) # rest) s = run_many rest (fst (run_script env submit_button f s))"

subsection \<open>Concrete worlds and forms\<close>

text \<open>
  A database that returns at most \<open>limit\<close> of two stored documents, one whose query
  fails, and a provider that fails; the form with the default numeric inputs, a form
  asking for one result, and a session that still holds the results of an earlier search.
\<close>

definition example_documents :: "document list" where
  "example_documents =
     [[(''score'', JNum 1), (''company_name'', JStr ''Acme'')],
      [(''score'', JNum 0), (''company_name'', JStr ''Bolt'')]]"

definition env_ok :: env where
  "env_ok =
     \<lparr>embeddings_create = (\<lambda>text model. Inr [1, 0]),
      aggregate = (\<lambda>p. case stage_field ''limit'' p of
                          Some (JInt n) \<Rightarrow>
                            if 1 \<le> n then Inr (take (nat n) example_documents)
                            else Inl (OperationFailure ''limit must be positive'')
                        | _ \<Rightarrow> Inl (OperationFailure ''bad pipeline''))\<rparr>"

definition env_search_fails :: env where
  "env_search_fails =
     \<lparr>embeddings_create = (\<lambda>text model. Inr [1, 0]),
      aggregate = (\<lambda>p. Inl (OperationFailure ''index not found''))\<rparr>"

definition env_embedding_fails :: env where
  "env_embedding_fails =
     \<lparr>embeddings_create = (\<lambda>text model. Inl ''rate limit''),
      aggregate = (\<lambda>p. Inr example_documents)\<rparr>"

definition default_form :: "string \<Rightarrow> string \<Rightarrow> form" where
  "default_form description industries =
     \<lparr>description_input = description, industry_input = industries,
      limit_input = 1000, candidates_input = 10000\<rparr>"


definition stale_session :: session where
  "stale_session = initial_session\<lparr>search_results_df := Some example_documents\<rparr>"



section \<open>Properties\<close>

lemmas string_defs = strip_def lstrip_def rstrip_def isspace_def whitespace_chars_def

lemmas pipeline_defs = filter_field_def stage_field_def pipeline_def search_stage_def
  search_filter_def dict_of_def

lemmas run_defs = run_script_def search_logic_def get_embedding_def get_embedding_body_def
  set_search_results_df_def emit_def set_embedding_cache_def vector_search_def
  results_display_def

subsection \<open>What \<open>split\<close> and \<open>strip\<close> compute\<close>

text \<open>
  \<open>split\<close> is the inverse of \<open>join\<close>: joining the pieces gives the string back, no piece
  holds the separator, and a joined list of separator-free pieces splits into itself.
\<close>

lemma split_not_Nil: "split sep s \<noteq> []"
  by (induction s) auto

lemma join_Cons: "ps \<noteq> [] \<Longrightarrow> join sep (p # ps) = p @ sep @ join sep ps"
  by (cases ps) auto

lemma join_split: "join [sep] (split sep s) = s"
proof (induction s)
  case Nil
  show ?case by simp
next
  case (Cons c cs)
  obtain p ps where sp: "split sep cs = p # ps"
    using split_not_Nil [of sep cs] by (cases "split sep cs") auto
  show ?case
  proof (cases "c = sep")
    case True
    then show ?thesis using Cons split_not_Nil [of sep cs] by (simp add: join_Cons)
  next
    case False
    then show ?thesis using Cons sp by (cases ps) auto
  qed
qed

lemma split_pieces_no_sep: "p \<in> set (split sep s) \<Longrightarrow> sep \<notin> set p"
proof (induction s arbitrary: p)
  case Nil
  then show ?case by simp
next
  case (Cons c cs)
  obtain q qs where sp: "split sep cs = q # qs"
    using split_not_Nil [of sep cs] by (cases "split sep cs") auto
  show ?case
    using Cons sp by (auto split: if_splits)
qed

lemma split_append_sep:
  "sep \<notin> set p \<Longrightarrow> split sep (p @ sep # rest) = p # split sep rest"
  by (induction p) auto

lemma split_no_sep: "sep \<notin> set p \<Longrightarrow> split sep p = [p]"
  by (induction p) auto

lemma split_join:
  "es \<noteq> [] \<Longrightarrow> list_all (\<lambda>e. sep \<notin> set e) es \<Longrightarrow> split sep (join [sep] es) = es"
proof (induction es rule: induct_list012)
  case 1
  then show ?case by simp
next
  case (2 p)
  then show ?case by (simp add: split_no_sep)
next
  case (3 p q ps)
  then show ?case by (simp add: split_append_sep)
qed

text \<open>
  \<open>strip s\<close> is \<open>s\<close> without a whitespace prefix and a whitespace suffix, and neither
  begins nor ends with whitespace.
\<close>

lemma strip_decompose:
  "\<exists>a b. s = a @ strip s @ b \<and> list_all isspace a \<and> list_all isspace b"
proof -
  have l: "s = takeWhile isspace s @ lstrip s"
    by (simp add: lstrip_def)
  have r: "lstrip s = strip s @ rev (takeWhile isspace (rev (lstrip s)))"
    unfolding strip_def rstrip_def
    by (metis rev_append rev_rev_ident takeWhile_dropWhile_id)
  have "list_all isspace (takeWhile isspace s)"
    by (simp add: list_all_iff) (meson set_takeWhileD)
  moreover have "list_all isspace (rev (takeWhile isspace (rev (lstrip s))))"
    by (simp add: list_all_iff) (meson set_takeWhileD)
  ultimately show ?thesis using l r by metis
qed

lemma strip_ends:
  "strip s \<noteq> [] \<Longrightarrow> \<not> isspace (hd (strip s)) \<and> \<not> isspace (last (strip s))"
proof -
  assume ne: "strip s \<noteq> []"
  have r: "lstrip s = strip s @ rev (takeWhile isspace (rev (lstrip s)))"
    unfolding strip_def rstrip_def
    by (metis rev_append rev_rev_ident takeWhile_dropWhile_id)
  from ne r have "hd (strip s) = hd (lstrip s)"
    by (metis hd_append2)
  moreover from ne r have "lstrip s \<noteq> []" by auto
  then have "\<not> isspace (hd (lstrip s))"
    unfolding lstrip_def by (rule hd_dropWhile)
  moreover have "last (strip s) = hd (dropWhile isspace (rev (lstrip s)))"
    using ne unfolding strip_def rstrip_def by (simp add: last_rev)
  moreover have "dropWhile isspace (rev (lstrip s)) \<noteq> []"
    using ne unfolding strip_def rstrip_def by simp
  then have "\<not> isspace (hd (dropWhile isspace (rev (lstrip s))))"
    by (rule hd_dropWhile)
  ultimately show ?thesis by simp
qed

subsection \<open>The events of a run\<close>

lemma aggregate_requests_append:
  "aggregate_requests (xs @ ys) = aggregate_requests xs @ aggregate_requests ys"
  by (induction xs rule: aggregate_requests.induct) auto

lemma embedding_requests_append:
  "embedding_requests (xs @ ys) = embedding_requests xs @ embedding_requests ys"
  by (induction xs rule: embedding_requests.induct) auto

lemma aggregate_requests_errors: "aggregate_requests (map StError msgs) = []"
  by (induction msgs) auto

lemma embedding_requests_errors: "embedding_requests (map StError msgs) = []"
  by (induction msgs) auto

lemma aggregate_requests_display: "aggregate_requests (results_display s) = []"
  by (simp add: results_display_def Let_def split: option.splits)

lemma embedding_requests_display: "embedding_requests (results_display s) = []"
  by (simp add: results_display_def Let_def split: option.splits)

lemma embedding_requests_vector_search:
  "embedding_requests (snd (vector_search env qv nc lm inds)) = []"
  by (simp add: vector_search_def Let_def split: option.splits sum.splits db_exception.splits)

lemma aggregate_requests_vector_search:
  "aggregate_requests (snd (vector_search env (Some qv) nc lm inds)) = [pipeline qv nc lm inds]"
  by (simp add: vector_search_def Let_def split: sum.splits db_exception.splits)

lemma aggregate_requests_get_embedding:
  "aggregate_requests (snd (snd (get_embedding env text c))) = []"
  by (simp add: get_embedding_def get_embedding_body_def Let_def aggregate_requests_errors
      split: option.splits sum.splits prod.splits)

lemma embedding_requests_get_embedding:
  "embedding_requests (snd (snd (get_embedding env text c))) =
     (if c text = None then [(replace_newlines text, default_model)] else [])"
  by (simp add: get_embedding_def get_embedding_body_def Let_def embedding_requests_errors
      split: option.splits sum.splits prod.splits)

text \<open>The search logic with its pairs taken apart, and a submitted run in terms of it.\<close>

lemma search_logic_unfold:
  "search_logic env f (s, []) =
     (if description_input f = [] then
        (s\<lparr>search_results_df := None\<rparr>,
         [SessionWrite None, StWarning ''Please enter a description to search for.''])
      else
        (let g = get_embedding env (description_input f) (embedding_cache s);
             s2 = s\<lparr>search_results_df := None, embedding_cache := fst (snd g)\<rparr>
         in if truthy (fst g) then
              (let vs = vector_search env (fst g) (candidates_input f) (limit_input f)
                          (parse_industries (industry_input f));
                   df = (if truthy (fst vs) then fst vs else Some [])
               in (s2\<lparr>search_results_df := df\<rparr>,
                   SessionWrite None # snd (snd g) @ snd vs @ [SessionWrite df]))
            else (s2, SessionWrite None # snd (snd g))))"
  by (simp add: search_logic_def set_search_results_df_def set_embedding_cache_def emit_def
      Let_def split_beta)

lemma run_script_submit:
  "run_script env True f s =
     (fst (search_logic env f (s, [])),
      snd (search_logic env f (s, [])) @ results_display (fst (search_logic env f (s, []))))"
  by (simp add: run_script_def emit_def Let_def)

text \<open>The outbound calls of a submitted run.\<close>

lemma run_aggregate_requests:
  "aggregate_requests (snd (run_script env True f s)) =
     (if description_input f \<noteq> [] then
        (case fst (get_embedding env (description_input f) (embedding_cache s)) of
           None \<Rightarrow> []
         | Some qv \<Rightarrow>
             if qv \<noteq> [] then
               [pipeline qv (candidates_input f) (limit_input f)
                  (parse_industries (industry_input f))]
             else [])
      else [])"
  by (simp add: run_script_submit search_logic_unfold Let_def aggregate_requests_append
      aggregate_requests_display aggregate_requests_get_embedding
      aggregate_requests_vector_search split: option.splits)

lemma run_embedding_requests:
  "embedding_requests (snd (run_script env True f s)) =
     (if description_input f \<noteq> [] \<and> embedding_cache s (description_input f) = None
      then [(replace_newlines (description_input f), default_model)] else [])"
  by (simp add: run_script_submit search_logic_unfold Let_def embedding_requests_append
      embedding_requests_display embedding_requests_get_embedding
      embedding_requests_vector_search)

subsection \<open>The Search Gateway\<close>

text \<open>
  C4.  Whatever the query vector, the two numbers and the industry list (empty or not),
  the filter of the query \<open>vector_search\<close> builds maps \<open>company_headquarters_country\<close> to
  the string \<open>USA\<close>, and that query is the one and only query \<open>vector_search\<close> sends to
  the collection.
\<close>

theorem country_filter_in_every_query:
  "filter_field ''company_headquarters_country'' (pipeline qv nc lm inds) = Some (JStr ''USA'')
   \<and> aggregate_requests (snd (vector_search env (Some qv) nc lm inds)) = [pipeline qv nc lm inds]"
  by (simp add: pipeline_defs vector_search_def Let_def split: sum.splits db_exception.splits)

text \<open>
  C9.  Called with \<open>None\<close> for the query vector, \<open>vector_search\<close> returns \<open>None\<close> and does
  nothing else: no query is sent to the collection and nothing is shown, whatever the
  other three arguments.
\<close>

theorem vector_search_none_returns_none:
  "vector_search env None nc lm inds = (None, [])"
  by (simp add: vector_search_def)

subsection \<open>Industry-filter parsing\<close>

text \<open>
  C5.  The parsing of the script is the parsing of the specification: split on commas,
  trim each entry, drop the entries that are empty after trimming.  On \<open>AI, SaaS , \<close> it
  gives the two strings \<open>AI\<close> and \<open>SaaS\<close>.  On the empty string it gives the empty list,
  the query built from it has no \<open>industry\<close> entry in its filter, and so no query of a
  run submitted with an empty industry field has one.
\<close>

theorem industry_filter_parsing:
  "parse_industries inp = spec_parse_industries inp
   \<and> parse_industries ''AI, SaaS , '' = [''AI'', ''SaaS'']
   \<and> set (parse_industries ''AI, SaaS , '') = {''AI'', ''SaaS''}
   \<and> parse_industries '''' = []
   \<and> filter_field ''industry'' (pipeline qv nc lm (parse_industries '''')) = None
   \<and> list_all (\<lambda>p. filter_field ''industry'' p = None)
        (aggregate_requests (snd (run_script env True (f\<lparr>industry_input := ''''\<rparr>) s)))"
proof -
  have a: "parse_industries inp = spec_parse_industries inp"
    by (cases "inp = []")
      (simp_all add: parse_industries_def spec_parse_industries_def filter_map comp_def
        strip_def lstrip_def rstrip_def)
  have b: "parse_industries ''AI, SaaS , '' = [''AI'', ''SaaS'']"
    by (simp add: parse_industries_def string_defs)
  have c: "parse_industries '''' = []"
    by (simp add: parse_industries_def)
  have d: "filter_field ''industry'' (pipeline qv' nc' lm' []) = None" for qv' nc' lm'
    by (simp add: pipeline_defs)
  have e: "list_all (\<lambda>p. filter_field ''industry'' p = None)
        (aggregate_requests (snd (run_script env True (f\<lparr>industry_input := ''''\<rparr>) s)))"
    by (simp add: run_aggregate_requests c d split: option.splits)
  show ?thesis
    using a b c d e by simp
qed

lemma count_list_filter:
  "count_list (filter P xs) x = (if P x then count_list xs x else 0)"
  by (induction xs) auto

text \<open>
  C10.  The parsed filter is a list, and it reaches the query as it is.  Let the industry
  field hold comma-free entries joined by commas, and let the run get a non-empty
  embedding for its description.  Then the parsed list is the entries trimmed, the empty
  ones dropped, in the order of the input and with every repetition kept, so a non-empty
  name occurs in it as often as among the trimmed entries; the run sends exactly one
  query, built from that list; and when the list is not empty the \<open>$in\<close> clause of that
  query is that list.
\<close>

theorem industry_list_reaches_query_in_order:
  assumes commas: "list_all (\<lambda>entry. CHR '','' \<notin> set entry) entries"
    and field: "industry_input f = join '','' entries"
    and described: "description_input f \<noteq> []"
    and embedded: "fst (get_embedding env (description_input f) (embedding_cache s)) = Some qv"
    and nonempty: "qv \<noteq> []"
  shows "parse_industries (industry_input f) = filter (\<lambda>t. t \<noteq> []) (map strip entries)
     \<and> (name \<noteq> [] \<longrightarrow>
          count_list (parse_industries (industry_input f)) name
            = count_list (map strip entries) name)
     \<and> aggregate_requests (snd (run_script env True f s))
         = [pipeline qv (candidates_input f) (limit_input f)
              (filter (\<lambda>t. t \<noteq> []) (map strip entries))]
     \<and> (filter (\<lambda>t. t \<noteq> []) (map strip entries) \<noteq> [] \<longrightarrow>
          filter_field ''industry''
            (pipeline qv (candidates_input f) (limit_input f)
               (filter (\<lambda>t. t \<noteq> []) (map strip entries)))
          = Some (JDict [(''$in'',
               JList (map JStr (filter (\<lambda>t. t \<noteq> []) (map strip entries))))]))"
proof -
  let ?parsed = "filter (\<lambda>t. t \<noteq> []) (map strip entries)"
  have p: "parse_industries (industry_input f) = ?parsed"
  proof (cases "entries = []")
    case True
    then show ?thesis by (simp add: field parse_industries_def)
  next
    case False
    have "parse_industries (join '','' entries)
            = filter (\<lambda>e. e \<noteq> []) (map strip (split CHR '','' (join '','' entries)))"
      by (cases "join '','' entries = []")
        (simp_all add: parse_industries_def filter_map comp_def strip_def lstrip_def rstrip_def)
    then show ?thesis
      using split_join [OF False commas] by (simp add: field)
  qed
  have c: "name \<noteq> [] \<longrightarrow>
        count_list (parse_industries (industry_input f)) name
          = count_list (map strip entries) name"
    by (simp add: p count_list_filter)
  have sent: "aggregate_requests (snd (run_script env True f s))
         = [pipeline qv (candidates_input f) (limit_input f) ?parsed]"
    using described embedded nonempty by (simp add: run_aggregate_requests p)
  have q: "?parsed \<noteq> [] \<longrightarrow>
          filter_field ''industry''
            (pipeline qv (candidates_input f) (limit_input f) ?parsed)
          = Some (JDict [(''$in'', JList (map JStr ?parsed))])"
    by (simp add: pipeline_defs)
  show ?thesis
    using p c sent q by simp
qed

theorem industry_list_reaches_query_in_order_witness:
  "industry_input (default_form ''AI startup'' ''AI, AI'') = join '','' [''AI'', '' AI'']
   \<and> parse_industries ''AI, AI'' = [''AI'', ''AI'']
   \<and> count_list (parse_industries ''AI, AI'') ''AI'' = 2
   \<and> aggregate_requests
        (snd (run_script env_ok True (default_form ''AI startup'' ''AI, AI'') initial_session))
       = [pipeline [1, 0] 10000 1000 [''AI'', ''AI'']]
   \<and> filter_field ''industry'' (pipeline [1, 0] 10000 1000 [''AI'', ''AI''])
       = Some (JDict [(''$in'', JList [JStr ''AI'', JStr ''AI''])])"
proof -
  let ?f = "default_form ''AI startup'' ''AI, AI''"
  have commas: "list_all (\<lambda>entry. CHR '','' \<notin> set entry) [''AI'', '' AI'']"
    by simp
  have field: "industry_input ?f = join '','' [''AI'', '' AI'']"
    by (simp add: default_form_def)
  have described: "description_input ?f \<noteq> []"
    by (simp add: default_form_def)
  have embedded: "fst (get_embedding env_ok (description_input ?f)
                         (embedding_cache initial_session)) = Some [1, 0]"
    by (simp add: get_embedding_def get_embedding_body_def env_ok_def default_form_def
        initial_session_def)
  have nonempty: "[1, 0 :: real] \<noteq> []"
    by simp
  have st: "map strip [''AI'', '' AI''] = [''AI'', ''AI'']"
    by (simp add: string_defs)
  show ?thesis
    using field st
      industry_list_reaches_query_in_order
        [OF commas field described embedded nonempty, of "''AI''"]
    by (simp add: default_form_def)
qed

subsection \<open>The submission handler\<close>

text \<open>
  C1 (the code departs from the claim).  The description is accepted, the embedding is
  returned, and the query then raises \<open>OperationFailure\<close>: the run ends with the session
  entry set to the empty frame, not \<open>None\<close>, and the display shows the "no results"
  notice after the error message.
\<close>

theorem search_failure_sets_empty_frame:
  "search_results_df
     (fst (run_script env_search_fails True (default_form ''AI startup'' '''') initial_session))
     = Some []
   \<and> snd (run_script env_search_fails True (default_form ''AI startup'' '''') initial_session) =
      [SessionWrite None,
       EmbeddingRequest ''AI startup'' default_model,
       AggregateRequest (pipeline [1, 0] 10000 1000 []),
       StError ''MongoDB Operation Error: The search failed. Check index and filters. Details: index not found'',
       SessionWrite (Some []),
       StInfo ''The search did not return any results from the database. Try broadening your criteria.'']"
  by (simp add: run_defs env_search_fails_def default_form_def initial_session_def
      parse_industries_def replace_newlines_def)

text \<open>
  C2, as stated, fails: a description of one space is whitespace only, yet the run sends
  it to the embedding provider, queries the database, shows no warning and stores the
  documents found.
\<close>

theorem whitespace_description_counterexample:
  "list_all isspace '' ''
   \<and> embedding_requests (snd (run_script env_ok True (default_form '' '' '''') initial_session))
       = [('' '', default_model)]
   \<and> aggregate_requests (snd (run_script env_ok True (default_form '' '' '''') initial_session))
       = [pipeline [1, 0] 10000 1000 []]
   \<and> \<not> list_ex is_warning (snd (run_script env_ok True (default_form '' '' '''') initial_session))
   \<and> search_results_df (fst (run_script env_ok True (default_form '' '' '''') initial_session))
       = Some example_documents"
  by (simp add: run_defs env_ok_def default_form_def initial_session_def
      parse_industries_def replace_newlines_def string_defs pipeline_defs example_documents_def)

text \<open>
  C2, amended.  When the description is the empty string, a submission clears the session
  entry to \<open>None\<close>, shows the warning and does nothing else: no call to the embedding
  provider, none to the database, the cache untouched, nothing displayed.
\<close>

theorem empty_description_warns:
  "description_input f = [] \<Longrightarrow>
   run_script env True f s =
     (s\<lparr>search_results_df := None\<rparr>,
      [SessionWrite None, StWarning ''Please enter a description to search for.''])"
  by (simp add: run_defs)

theorem empty_description_warns_witness:
  "description_input (default_form '''' ''AI'') = [] \<and>
   run_script env_ok True (default_form '''' ''AI'') initial_session =
     (initial_session\<lparr>search_results_df := None\<rparr>,
      [SessionWrite None, StWarning ''Please enter a description to search for.''])"
  using empty_description_warns [of "default_form '''' ''AI''" env_ok initial_session]
  by (simp add: default_form_def)

text \<open>
  C3.  When \<open>get_embedding\<close> gives \<open>None\<close> for the submitted description (the provider
  failed), the run ends with the session entry \<open>None\<close>, sends no query to the database
  and displays no results.
\<close>

theorem embedding_failure_keeps_unset:
  "fst (get_embedding env (description_input f) (embedding_cache s)) = None \<Longrightarrow>
   search_results_df (fst (run_script env True f s)) = None
   \<and> aggregate_requests (snd (run_script env True f s)) = []
   \<and> results_display (fst (run_script env True f s)) = []"
  by (auto simp add: run_defs Let_def aggregate_requests_errors
      split: option.splits prod.splits sum.splits)

theorem embedding_failure_keeps_unset_witness:
  "fst (get_embedding env_embedding_fails (description_input (default_form ''AI startup'' ''AI''))
         (embedding_cache initial_session)) = None
   \<and> search_results_df (fst (run_script env_embedding_fails True (default_form ''AI startup'' ''AI'') initial_session)) = None
   \<and> aggregate_requests (snd (run_script env_embedding_fails True (default_form ''AI startup'' ''AI'') initial_session)) = []
   \<and> results_display (fst (run_script env_embedding_fails True (default_form ''AI startup'' ''AI'') initial_session)) = []
   \<and> snd (run_script env_embedding_fails True (default_form ''AI startup'' ''AI'') initial_session) =
       [SessionWrite None, EmbeddingRequest ''AI startup'' default_model,
        StError ''OpenAI Error: Failed to generate embedding. rate limit'']"
proof -
  have h: "fst (get_embedding env_embedding_fails (description_input (default_form ''AI startup'' ''AI''))
         (embedding_cache initial_session)) = None"
    by (simp add: get_embedding_def get_embedding_body_def env_embedding_fails_def
        default_form_def initial_session_def)
  have e: "snd (run_script env_embedding_fails True (default_form ''AI startup'' ''AI'') initial_session) =
       [SessionWrite None, EmbeddingRequest ''AI startup'' default_model,
        StError ''OpenAI Error: Failed to generate embedding. rate limit'']"
    by (simp add: run_defs env_embedding_fails_def default_form_def initial_session_def
        replace_newlines_def)
  show ?thesis
    using h e embedding_failure_keeps_unset [OF h] by simp
qed

subsection \<open>The embedding cache\<close>

text \<open>A run never removes a key from the cache, and a submitted description becomes one.\<close>

lemma get_embedding_stores: "fst (snd (get_embedding env text c)) text \<noteq> None"
  by (simp add: get_embedding_def split: option.splits prod.splits)

lemma get_embedding_keeps:
  "c k \<noteq> None \<Longrightarrow> fst (snd (get_embedding env text c)) k \<noteq> None"
  by (simp add: get_embedding_def split: option.splits prod.splits)

lemma run_script_no_submit: "fst (run_script env False f s) = s"
  by (simp add: run_script_def emit_def)

lemma run_script_cache:
  "embedding_cache (fst (run_script env True f s)) =
     (if description_input f = [] then embedding_cache s
      else fst (snd (get_embedding env (description_input f) (embedding_cache s))))"
  by (simp add: run_script_submit search_logic_unfold Let_def)

lemma run_script_keeps:
  assumes "embedding_cache s k \<noteq> None"
  shows "embedding_cache (fst (run_script env b f s)) k \<noteq> None"
proof (cases "b \<and> description_input f \<noteq> []")
  case True
  then have eq: "embedding_cache (fst (run_script env b f s))
                  = fst (snd (get_embedding env (description_input f) (embedding_cache s)))"
    by (simp add: run_script_cache)
  show ?thesis
    unfolding eq
    using assms by (rule get_embedding_keeps [where c = "embedding_cache s" and k = k])
next
  case False
  then have "embedding_cache (fst (run_script env b f s)) = embedding_cache s"
    by (cases b) (simp_all add: run_script_cache run_script_no_submit)
  then show ?thesis
    using assms by simp
qed

lemma run_many_keeps:
  "embedding_cache s k \<noteq> None \<Longrightarrow> embedding_cache (run_many runs s) k \<noteq> None"
proof (induction runs arbitrary: s)
  case Nil
  then show ?case by simp
next
  case (Cons r runs)
  obtain env b f where r: "r = (env, b, f)" by (cases r) auto
  show ?case
    using Cons.IH [OF run_script_keeps [OF Cons.prems, of env b f]] r by simp
qed

text \<open>
  C6, as stated, fails: the description \<open>a\<close>, newline, \<open>b\<close> and the description \<open>a b\<close> are
  the same text once the newlines are replaced by spaces, yet submitting the first and
  then the second sends the provider two requests, both for \<open>a b\<close>.  The cache is looked
  up with the text as submitted, not with the text the provider receives.
\<close>

theorem normalised_text_counterexample:
  "replace_newlines ''a\<newline>b'' = replace_newlines ''a b''
   \<and> embedding_requests
         (snd (run_script env_ok True (default_form ''a\<newline>b'' '''') initial_session))
       = [(''a b'', default_model)]
   \<and> embedding_requests
         (snd (run_script env_ok True (default_form ''a b'' '''')
                (fst (run_script env_ok True (default_form ''a\<newline>b'' '''') initial_session))))
       = [(''a b'', default_model)]"
  by (simp add: run_embedding_requests run_script_cache default_form_def initial_session_def
      replace_newlines_def get_embedding_def get_embedding_body_def env_ok_def)

text \<open>
  C6, amended.  When the same description text, character for character, is submitted
  twice, with any runs in between and whatever the provider does, the second submission
  sends no embedding request, and the first sends at most one.  The cache key is the
  description as submitted: a submission sends a request exactly when its description
  is not empty and is not a key of the cache, and the text it sends is the description
  with its newlines replaced by spaces.
\<close>

theorem identical_text_embedded_once:
  "description_input f2 = description_input f1 \<Longrightarrow>
   embedding_requests
       (snd (run_script env2 True f2 (run_many between (fst (run_script env1 True f1 s))))) = []
   \<and> length (embedding_requests (snd (run_script env1 True f1 s))) \<le> 1
   \<and> embedding_requests (snd (run_script env True f s)) =
       (if description_input f \<noteq> [] \<and> embedding_cache s (description_input f) = None
        then [(replace_newlines (description_input f), default_model)] else [])"
proof -
  assume same: "description_input f2 = description_input f1"
  have "description_input f1 \<noteq> [] \<Longrightarrow>
        embedding_cache (fst (run_script env1 True f1 s)) (description_input f1) \<noteq> None"
    by (simp add: run_script_cache get_embedding_stores)
  then have "description_input f1 \<noteq> [] \<Longrightarrow>
        embedding_cache (run_many between (fst (run_script env1 True f1 s)))
          (description_input f1) \<noteq> None"
    by (rule run_many_keeps)
  then have a: "embedding_requests
       (snd (run_script env2 True f2 (run_many between (fst (run_script env1 True f1 s))))) = []"
    using same by (auto simp add: run_embedding_requests)
  have b: "length (embedding_requests (snd (run_script env1 True f1 s))) \<le> 1"
    by (simp add: run_embedding_requests)
  show ?thesis
    using a b by (simp add: run_embedding_requests)
qed

theorem identical_text_embedded_once_witness:
  "description_input (default_form ''a\<newline>b'' ''AI'') = description_input (default_form ''a\<newline>b'' '''')
   \<and> embedding_requests
        (snd (run_script env_ok True (default_form ''a\<newline>b'' '''') initial_session))
       = [(''a b'', default_model)]
   \<and> embedding_requests
        (snd (run_script env_embedding_fails True (default_form ''a\<newline>b'' ''AI'')
           (run_many [(env_ok, True, default_form ''other'' '''')]
              (fst (run_script env_ok True (default_form ''a\<newline>b'' '''') initial_session))))) = []"
proof -
  have h: "description_input (default_form ''a\<newline>b'' ''AI'')
             = description_input (default_form ''a\<newline>b'' '''')"
    by (simp add: default_form_def)
  show ?thesis
    using h identical_text_embedded_once [OF h, of env_embedding_fails
        "[(env_ok, True, default_form ''other'' '''')]" env_ok initial_session
        env_ok "default_form ''a\<newline>b'' ''''"]
    by (simp add: default_form_def initial_session_def replace_newlines_def)
qed

subsection \<open>Search parameters and result size\<close>








subsection \<open>The session entry during a submission\<close>

text \<open>A submitted run does not depend on what the session entry held before.\<close>

lemma run_script_forgets_previous:
  "run_script env True f (s\<lparr>search_results_df := previous\<rparr>) = run_script env True f s"
  by (simp add: run_script_submit search_logic_unfold Let_def)

text \<open>
  C8 (the code departs from the claim).  The session still holds the two documents of an
  earlier search; the new submission gets its embedding and its query then raises
  \<open>OperationFailure\<close>.  The entry is cleared first and the earlier documents are not
  displayed, but the entry is assigned a second time although the search did not
  complete: the empty frame is stored and the "no results" notice is shown.
\<close>

theorem failed_search_assigns_entry_again:
  "search_results_df stale_session = Some example_documents
   \<and> snd (run_script env_search_fails True (default_form ''AI startup'' '''') stale_session) =
      [SessionWrite None,
       EmbeddingRequest ''AI startup'' default_model,
       AggregateRequest (pipeline [1, 0] 10000 1000 []),
       StError ''MongoDB Operation Error: The search failed. Check index and filters. Details: index not found'',
       SessionWrite (Some []),
       StInfo ''The search did not return any results from the database. Try broadening your criteria.'']
   \<and> search_results_df
        (fst (run_script env_search_fails True (default_form ''AI startup'' '''') stale_session))
       = Some []"
  by (simp add: run_defs env_search_fails_def default_form_def initial_session_def
      stale_session_def parse_industries_def replace_newlines_def)

end
